theory Spec2Isabelle
  imports Main
begin

section \<open>The conversion endpoint of index.js\<close>

text \<open>
  The program is one Express handler, \<^verbatim>\<open>POST /convert\<close>, behind the multer
  middleware \<^verbatim>\<open>upload.single('file')\<close>. Its effects are the files of the uploads
  directory, the calls of the three external converters (ffmpeg, libreoffice-convert,
  sharp), the console and the response object. The model threads a \<open>world\<close> (the set of
  files on disk and the trace of effects, in order) through the handler and returns the
  response object next to it. What the program does not decide is a parameter, the
  \<open>env\<close>: the value of \<^verbatim>\<open>__dirname\<close>, the two readings of \<^verbatim>\<open>Date.now()\<close>,
  whether the external converter succeeds, and what becomes of the read stream.
\<close>

subsection \<open>JavaScript values\<close>

type_synonym path = string

text \<open>An \<^verbatim>\<open>Error\<close> object: its \<^verbatim>\<open>name\<close> and its \<^verbatim>\<open>message\<close>.\<close>

datatype js_error = JsError (err_name: string) (err_message: string)

text \<open>\<^verbatim>\<open>Error.prototype.toString\<close>.\<close>

definition error_toString :: "js_error \<Rightarrow> string" where
  "error_toString e =
     (if err_name e = [] then err_message e
      else if err_message e = [] then err_name e
      else err_name e @ '': '' @ err_message e)"

text \<open>
  A value interpolated into a template literal. \<^verbatim>\<open>req.body.targetFormat\<close> is a
  string, or \<^verbatim>\<open>undefined\<close> (\<open>None\<close>) when the form has no such field.
\<close>

definition template :: "string option \<Rightarrow> string" where
  "template v = (case v of None \<Rightarrow> ''undefined'' | Some s \<Rightarrow> s)"

text \<open>\<^verbatim>\<open>Array.prototype.includes\<close> on an array of strings: \<^verbatim>\<open>undefined\<close> is no member.\<close>

definition js_includes :: "string list \<Rightarrow> string option \<Rightarrow> bool" where
  "js_includes xs v = (case v of None \<Rightarrow> False | Some s \<Rightarrow> s \<in> set xs)"

text \<open>
  \<^verbatim>\<open>Date.now()\<close> is a non-negative integer of milliseconds; concatenated with a
  string it is written in decimal.
\<close>

definition digit_char :: "nat \<Rightarrow> char" where
  "digit_char d = ''0123456789'' ! d"

fun string_of_nat :: "nat \<Rightarrow> string" where
  "string_of_nat n =
     (if n < 10 then [digit_char n]
      else string_of_nat (n div 10) @ [digit_char (n mod 10)])"

declare string_of_nat.simps [simp del]

subsection \<open>The world: files and effects\<close>

datatype encoder = Jpeg | Png | Webp

text \<open>
  One entry of the trace per call that leaves the program:
  \<^item> \<open>Ffmpeg input format codec bitrate output\<close>: the fluent-ffmpeg chain
    \<^verbatim>\<open>ffmpeg(input).toFormat(format).audioCodec(codec).audioBitrate(bitrate).save(output)\<close>;
  \<^item> \<open>ReadFile\<close>, \<open>WriteFile\<close>, \<open>Unlink\<close>, \<open>CreateReadStream\<close>: the calls on \<^verbatim>\<open>fs\<close>;
  \<^item> \<open>LibreConvert ext\<close>: \<^verbatim>\<open>convertLibreOffice(buffer, ext, undefined)\<close>;
  \<^item> \<open>Sharp input\<close>: \<^verbatim>\<open>sharp(input)\<close>; \<open>ToFile enc q output\<close>: the encoder call with
    \<^verbatim>\<open>{ quality: q }\<close> followed by \<^verbatim>\<open>.toFile(output)\<close>;
  \<^item> \<open>ConsoleError\<close>: \<^verbatim>\<open>console.error\<close> with its first argument.
\<close>

datatype event =
    Ffmpeg path string string string path
  | ReadFile path
  | LibreConvert string
  | WriteFile path
  | Sharp path
  | ToFile encoder nat path
  | CreateReadStream path
  | Unlink path
  | ConsoleError string

record world =
  files :: "path set"
  trace :: "event list"

definition emit :: "event \<Rightarrow> world \<Rightarrow> world" where
  "emit e w = w\<lparr>trace := trace w @ [e]\<rparr>"

definition create :: "path \<Rightarrow> world \<Rightarrow> world" where
  "create p w = w\<lparr>files := insert p (files w)\<rparr>"

text \<open>
  What the external converter does when it is run. A failed run of ffmpeg leaves its
  output file, empty, on disk; a failed call of libreoffice-convert or of sharp leaves
  none.
\<close>

datatype outcome = Done | Failed js_error

text \<open>
  What becomes of \<^verbatim>\<open>fs.createReadStream(outputPath)\<close> and of the pipe into the
  response:
  \<^item> \<open>NotAFunction\<close>: the call itself throws a \<^verbatim>\<open>TypeError\<close>. Line 6 binds
    \<^verbatim>\<open>fs\<close> to the promise API (\<^verbatim>\<open>import fs from 'fs/promises'\<close>), which has
    \<^verbatim>\<open>mkdir\<close>, \<^verbatim>\<open>readFile\<close>, \<^verbatim>\<open>writeFile\<close> and \<^verbatim>\<open>unlink\<close> but no
    \<^verbatim>\<open>createReadStream\<close>; with the module as imported this is the outcome.
  \<^item> \<open>Ended\<close>: the stream is created, every byte is piped and \<^verbatim>\<open>'end'\<close> fires
    (what lines 121 to 132 are written for, with the callback API of \<^verbatim>\<open>fs\<close>).
  \<^item> \<open>Aborted\<close>: the stream is created but \<^verbatim>\<open>'end'\<close> never fires: the client closed
    the connection mid-stream, or the read failed.
  The theorems below hold for every outcome unless they name one.
\<close>

datatype stream_outcome = NotAFunction | Ended | Aborted

record env =
  dirname :: string
  stored_at :: nat
  now :: nat
  tool :: outcome
  stream :: stream_outcome

text \<open>
  The error of a file-system call on a missing file, as Node words it:
  \<^verbatim>\<open>ENOENT: no such file or directory, unlink '/x'\<close>.
\<close>

definition enoent :: "string \<Rightarrow> path \<Rightarrow> js_error" where
  "enoent syscall p =
     JsError ''Error''
       (''ENOENT: no such file or directory, '' @ syscall @ '' '' @ [CHR 0x27] @ p @ [CHR 0x27])"

text \<open>
  \<^verbatim>\<open>fs.unlink(p)\<close>: removes the file, or rejects when there is none. A file that
  exists is always removable here; other failures (permissions, a busy file) are not
  modelled.
\<close>

definition unlink :: "path \<Rightarrow> world \<Rightarrow> (js_error + unit) \<times> world" where
  "unlink p w =
     (let w1 = emit (Unlink p) w in
      if p \<in> files w then (Inr (), w1\<lparr>files := files w - {p}\<rparr>)
      else (Inl (enoent ''unlink'' p), w1))"

text \<open>
  \<^verbatim>\<open>path.join(__dirname, 'uploads', name)\<close>. The normalisation that \<^verbatim>\<open>path.join\<close>
  applies to separators and dot segments inside \<open>name\<close> is not modelled.
\<close>

definition uploads_path :: "string \<Rightarrow> string \<Rightarrow> path" where
  "uploads_path dir name = dir @ ''/uploads/'' @ name"

subsection \<open>The upload (lines 21 to 30)\<close>

text \<open>The \<^verbatim>\<open>filename\<close> callback of the disk storage: \<^verbatim>\<open>Date.now() + '-' + file.originalname\<close>.\<close>

definition storage_filename :: "nat \<Rightarrow> string \<Rightarrow> string" where
  "storage_filename t originalname = string_of_nat t @ ''-'' @ originalname"

text \<open>\<^verbatim>\<open>req.file\<close> as the handler reads it, and the request after multer.\<close>

record upload =
  path :: path
  originalname :: string

record request =
  targetFormat :: "string option"
  req_file :: "upload option"

text \<open>
  The multipart form as it arrives: the original name of the part of the field
  \<^verbatim>\<open>file\<close>, if there is one, and the text field \<^verbatim>\<open>targetFormat\<close>, if there is one.
  \<^verbatim>\<open>upload.single('file')\<close> writes the part under the name the \<^verbatim>\<open>filename\<close>
  callback gives, in the directory the \<^verbatim>\<open>destination\<close> callback gives, and sets
  \<^verbatim>\<open>req.file\<close>; with no such part it writes nothing and leaves \<^verbatim>\<open>req.file\<close> undefined.
  Only multipart requests are modelled, for which multer always sets \<^verbatim>\<open>req.body\<close>; a
  field sent more than once (an array in \<^verbatim>\<open>req.body\<close>) is not.
\<close>

record multipart =
  file_part :: "string option"
  targetFormat_field :: "string option"

definition upload_single :: "env \<Rightarrow> multipart \<Rightarrow> world \<Rightarrow> request \<times> world" where
  "upload_single e mp w =
     (case file_part mp of
        None \<Rightarrow> (\<lparr>targetFormat = targetFormat_field mp, req_file = None\<rparr>, w)
      | Some name \<Rightarrow>
          (let p = uploads_path (dirname e) (storage_filename (stored_at e) name)
           in (\<lparr>targetFormat = targetFormat_field mp,
                req_file = Some \<lparr>path = p, originalname = name\<rparr>\<rparr>,
               create p (emit (WriteFile p) w))))"

subsection \<open>The converters (lines 36 to 66)\<close>

definition convertAudio ::
  "env \<Rightarrow> path \<Rightarrow> path \<Rightarrow> string \<Rightarrow> world \<Rightarrow> (js_error + unit) \<times> world" where
  "convertAudio e inputPath outputPath format w =
     (let w1 = emit (Ffmpeg inputPath format ''libmp3lame'' ''192k'' outputPath) w in
      case tool e of
        Done \<Rightarrow> (Inr (), create outputPath w1)
      | Failed err \<Rightarrow> (Inl err, create outputPath w1))"

definition convertDocument ::
  "env \<Rightarrow> path \<Rightarrow> path \<Rightarrow> string \<Rightarrow> world \<Rightarrow> (js_error + unit) \<times> world" where
  "convertDocument e inputPath outputPath fmt w =
     (let w1 = emit (ReadFile inputPath) w in
      if inputPath \<notin> files w then (Inl (enoent ''open'' inputPath), w1)
      else
        (let outputExtension = ''.'' @ fmt;
             w2 = emit (LibreConvert outputExtension) w1
         in case tool e of
              Failed err \<Rightarrow> (Inl err, w2)
            | Done \<Rightarrow> (Inr (), create outputPath (emit (WriteFile outputPath) w2))))"

definition toFile ::
  "env \<Rightarrow> encoder \<Rightarrow> nat \<Rightarrow> path \<Rightarrow> world \<Rightarrow> (js_error + unit) \<times> world" where
  "toFile e enc quality outputPath w =
     (let w1 = emit (ToFile enc quality outputPath) w in
      case tool e of
        Done \<Rightarrow> (Inr (), create outputPath w1)
      | Failed err \<Rightarrow> (Inl err, w1))"

definition convertImage ::
  "env \<Rightarrow> path \<Rightarrow> path \<Rightarrow> string \<Rightarrow> world \<Rightarrow> (js_error + unit) \<times> world" where
  "convertImage e inputPath outputPath format w =
     (let w1 = emit (Sharp inputPath) w in
      if format = ''jpg'' \<or> format = ''jpeg'' then toFile e Jpeg 90 outputPath w1
      else if format = ''png'' then toFile e Png 90 outputPath w1
      else if format = ''webp'' then toFile e Webp 90 outputPath w1
      else (Inr (), w1))"

subsection \<open>The handler (lines 69 to 148)\<close>

datatype body = Empty | Json "(string \<times> string) list" | Piped path

record response =
  status :: nat
  headers :: "string \<rightharpoonup> string"
  body :: body

text \<open>The response object as Express hands it to the handler.\<close>

definition res0 :: response where
  "res0 = \<lparr>status = 200, headers = Map.empty, body = Empty\<rparr>"

definition setHeader :: "string \<Rightarrow> string \<Rightarrow> response \<Rightarrow> response" where
  "setHeader k v res = res\<lparr>headers := (headers res)(k \<mapsto> v)\<rparr>"

text \<open>
  \<^verbatim>\<open>res.json(obj)\<close> of Express: the body is the JSON text, and the
  \<^verbatim>\<open>Content-Type\<close> header becomes \<^verbatim>\<open>application/json; charset=utf-8\<close> when none
  is set, and the type already set followed by \<^verbatim>\<open>; charset=utf-8\<close> otherwise (the
  types this handler sets carry no parameter of their own).
\<close>

definition json :: "(string \<times> string) list \<Rightarrow> response \<Rightarrow> response" where
  "json obj res =
     res\<lparr>headers := (headers res)(''Content-Type'' \<mapsto>
              (case headers res ''Content-Type'' of
                 None \<Rightarrow> ''application/json; charset=utf-8''
               | Some t \<Rightarrow> t @ ''; charset=utf-8'')),
         body := Json obj\<rparr>"

definition supportedAudioFormats :: "string list" where
  "supportedAudioFormats = [''mp3'', ''wav'', ''ogg'', ''m4a'']"

definition supportedImageFormats :: "string list" where
  "supportedImageFormats = [''jpg'', ''jpeg'', ''png'', ''webp'']"

definition supportedDocFormats :: "string list" where
  "supportedDocFormats = [''pdf'', ''docx'', ''txt'']"

definition contentTypes :: "string \<rightharpoonup> string" where
  "contentTypes = map_of
     [(''mp3'', ''audio/mpeg''),
      (''wav'', ''audio/wav''),
      (''ogg'', ''audio/ogg''),
      (''m4a'', ''audio/mp4''),
      (''pdf'', ''application/pdf''),
      (''docx'', ''application/vnd.openxmlformats-officedocument.wordprocessingml.document''),
      (''txt'', ''text/plain''),
      (''jpg'', ''image/jpeg''),
      (''jpeg'', ''image/jpeg''),
      (''png'', ''image/png''),
      (''webp'', ''image/webp'')]"

text \<open>The error thrown on line 113.\<close>

definition not_supported :: "string option \<Rightarrow> js_error" where
  "not_supported tf = JsError ''Error'' (''Conversion to '' @ template tf @ '' is not supported'')"

text \<open>Lines 106 to 114: the converter is chosen by the first list that has the target.\<close>

definition dispatch ::
  "env \<Rightarrow> path \<Rightarrow> path \<Rightarrow> string option \<Rightarrow> world \<Rightarrow> (js_error + unit) \<times> world" where
  "dispatch e inputPath outputPath tf w =
     (case tf of
        None \<Rightarrow> (Inl (not_supported tf), w)
      | Some t \<Rightarrow>
          if js_includes supportedAudioFormats tf then convertAudio e inputPath outputPath t w
          else if js_includes supportedDocFormats tf then convertDocument e inputPath outputPath t w
          else if js_includes supportedImageFormats tf then convertImage e inputPath outputPath t w
          else (Inl (not_supported tf), w))"

text \<open>
  Lines 133 to 147, the \<^verbatim>\<open>catch\<close> block: the input file is unlinked when
  \<^verbatim>\<open>req.file\<close> is set, a failure of that is logged, and the response is
  \<^verbatim>\<open>res.status(500).json(...)\<close> with \<^verbatim>\<open>error.message || 'Conversion failed'\<close> and
  \<^verbatim>\<open>error.toString()\<close>.
\<close>

definition catch_block :: "js_error \<Rightarrow> request \<Rightarrow> response \<Rightarrow> world \<Rightarrow> response \<times> world" where
  "catch_block error req res w =
     (let w1 =
        (case req_file req of
           None \<Rightarrow> w
         | Some f \<Rightarrow>
             (case unlink (path f) w of
                (Inl cleanupError, w') \<Rightarrow> emit (ConsoleError ''Error cleaning up input file:'') w'
              | (Inr u, w') \<Rightarrow> w'))
      in (json [(''error'', if err_message error = [] then ''Conversion failed''
                            else err_message error),
                (''details'', error_toString error)]
            (res\<lparr>status := 500\<rparr>), w1))"

text \<open>
  Lines 125 to 132, the callback of \<^verbatim>\<open>'end'\<close>: both unlinks stand in one
  \<^verbatim>\<open>try\<close>, so a rejection of the first goes to the \<^verbatim>\<open>catch\<close> at once.
\<close>

definition on_end :: "path \<Rightarrow> path \<Rightarrow> world \<Rightarrow> world" where
  "on_end inputPath outputPath w =
     (case unlink inputPath w of
        (Inl cleanupError, w1) \<Rightarrow> emit (ConsoleError ''Error cleaning up files:'') w1
      | (Inr u, w1) \<Rightarrow>
          (case unlink outputPath w1 of
             (Inl cleanupError, w2) \<Rightarrow> emit (ConsoleError ''Error cleaning up files:'') w2
           | (Inr u', w2) \<Rightarrow> w2))"

text \<open>
  Lines 116 to 132, after the converter has returned. Node's \<^verbatim>\<open>setHeader\<close> throws on
  the value \<^verbatim>\<open>undefined\<close>, which \<^verbatim>\<open>contentTypes[targetFormat]\<close> is for a key the
  table does not have.
\<close>

definition invalid_header :: js_error where
  "invalid_header =
     JsError ''TypeError''
       (''Invalid value '' @ [CHR 0x22] @ ''undefined'' @ [CHR 0x22] @ '' for header ''
          @ [CHR 0x22] @ ''Content-Type'' @ [CHR 0x22])"

definition not_a_function :: js_error where
  "not_a_function = JsError ''TypeError'' ''fs.createReadStream is not a function''"

definition send_file ::
  "env \<Rightarrow> request \<Rightarrow> path \<Rightarrow> path \<Rightarrow> string \<Rightarrow> world \<Rightarrow> response \<times> world" where
  "send_file e req inputPath outputPath outputFileName w =
     (case (case targetFormat req of None \<Rightarrow> None | Some t \<Rightarrow> contentTypes t) of
        None \<Rightarrow> catch_block invalid_header req res0 w
      | Some ct \<Rightarrow>
          (let res1 = setHeader ''Content-Type'' ct res0;
               res2 = setHeader ''Content-Disposition''
                        (''attachment; filename='' @ outputFileName) res1
           in case stream e of
                NotAFunction \<Rightarrow> catch_block not_a_function req res2 w
              | Ended \<Rightarrow>
                  (res2\<lparr>body := Piped outputPath\<rparr>,
                   on_end inputPath outputPath (emit (CreateReadStream outputPath) w))
              | Aborted \<Rightarrow>
                  (res2\<lparr>body := Piped outputPath\<rparr>, emit (CreateReadStream outputPath) w)))"

text \<open>
  The handler itself. The \<^verbatim>\<open>sourceFormat\<close> of line 83 is computed from the original
  name and never used, so it has no counterpart here.
\<close>

definition handler :: "env \<Rightarrow> request \<Rightarrow> world \<Rightarrow> response \<times> world" where
  "handler e req w =
     (case req_file req of
        None \<Rightarrow> (json [(''error'', ''No file uploaded'')] (res0\<lparr>status := 400\<rparr>), w)
      | Some f \<Rightarrow>
          (let inputPath = path f;
               outputFileName = string_of_nat (now e) @ ''-converted.'' @ template (targetFormat req);
               outputPath = uploads_path (dirname e) outputFileName
           in case dispatch e inputPath outputPath (targetFormat req) w of
                (Inl error, w1) \<Rightarrow> catch_block error req res0 w1
              | (Inr u, w1) \<Rightarrow> send_file e req inputPath outputPath outputFileName w1))"

text \<open>The whole route: the middleware, then the handler.\<close>

definition post_convert :: "env \<Rightarrow> multipart \<Rightarrow> world \<Rightarrow> response \<times> world" where
  "post_convert e mp w = (case upload_single e mp w of (req, w1) \<Rightarrow> handler e req w1)"

subsection \<open>Vocabulary of the properties\<close>

text \<open>The target formats the specification lists as supported.\<close>

definition supported :: "string set" where
  "supported = {''mp3'', ''wav'', ''ogg'', ''m4a'', ''pdf'', ''docx'', ''txt'',
                ''jpg'', ''jpeg'', ''png'', ''webp''}"

text \<open>The output path of lines 79 and 80 for a target format.\<close>

definition output_path :: "env \<Rightarrow> string \<Rightarrow> path" where
  "output_path e fmt = uploads_path (dirname e) (string_of_nat (now e) @ ''-converted.'' @ fmt)"

text \<open>The entries of the trace that are calls of an external converter.\<close>

fun is_converter_call :: "event \<Rightarrow> bool" where
  "is_converter_call (Ffmpeg i f c b out) = True"
| "is_converter_call (LibreConvert ext) = True"
| "is_converter_call (Sharp i) = True"
| "is_converter_call (ToFile enc q out) = True"
| "is_converter_call ev = False"

text \<open>The entries that \<^verbatim>\<open>convertImage\<close> alone produces.\<close>

fun is_sharp_call :: "event \<Rightarrow> bool" where
  "is_sharp_call (Sharp i) = True"
| "is_sharp_call (ToFile enc q out) = True"
| "is_sharp_call ev = False"

text \<open>
  Concrete values for the examples: a server under \<^verbatim>\<open>/srv\<close> whose converter
  succeeds, with each of the three outcomes of the stream, and an empty uploads directory.
\<close>

abbreviation env_as_imported :: env where
  "env_as_imported \<equiv>
     \<lparr>dirname = ''/srv'', stored_at = 1700000000000, now = 1700000000005,
      tool = Done, stream = NotAFunction\<rparr>"

abbreviation env_ended :: env where
  "env_ended \<equiv>
     \<lparr>dirname = ''/srv'', stored_at = 1700000000000, now = 1700000000005,
      tool = Done, stream = Ended\<rparr>"

abbreviation env_aborted :: env where
  "env_aborted \<equiv>
     \<lparr>dirname = ''/srv'', stored_at = 1700000000000, now = 1700000000005,
      tool = Done, stream = Aborted\<rparr>"

abbreviation empty_disk :: world where
  "empty_disk \<equiv> \<lparr>files = {}, trace = []\<rparr>"

section \<open>Properties\<close>

subsection \<open>Shared facts about the handler\<close>

lemma upload_single_file:
  "file_part mp = Some name \<Longrightarrow>
   upload_single e mp w =
     (\<lparr>targetFormat = targetFormat_field mp,
       req_file = Some \<lparr>path = uploads_path (dirname e) (storage_filename (stored_at e) name),
                        originalname = name\<rparr>\<rparr>,
      \<lparr>files = insert (uploads_path (dirname e) (storage_filename (stored_at e) name)) (files w),
       trace = trace w @ [WriteFile (uploads_path (dirname e) (storage_filename (stored_at e) name))]\<rparr>)"
  by (simp add: upload_single_def Let_def create_def emit_def)

text \<open>
  A target outside the supported set (\<^verbatim>\<open>undefined\<close> included) reaches the
  \<^verbatim>\<open>throw\<close> of line 113, and the \<^verbatim>\<open>catch\<close> block answers.
\<close>

lemma handler_not_supported:
  assumes "req_file req = Some f" and "targetFormat req \<notin> Some ` supported"
  shows "handler e req w =
     (json [(''error'', ''Conversion to '' @ template (targetFormat req) @ '' is not supported''),
            (''details'', ''Error: Conversion to '' @ template (targetFormat req) @ '' is not supported'')]
        (res0\<lparr>status := 500\<rparr>),
      \<lparr>files = files w - {path f},
       trace = trace w @ (if path f \<in> files w then [Unlink (path f)]
                          else [Unlink (path f), ConsoleError ''Error cleaning up input file:''])\<rparr>)"
  using assms
  by (cases "targetFormat req")
     (auto simp: handler_def dispatch_def js_includes_def supported_def supportedAudioFormats_def
        supportedDocFormats_def supportedImageFormats_def not_supported_def catch_block_def
        unlink_def emit_def error_toString_def Let_def template_def json_def)

text \<open>Nothing after the dispatch calls a converter.\<close>

lemma filter_send_file:
  "filter is_converter_call (trace (snd (send_file e req i out name w))) =
   filter is_converter_call (trace w)"
  by (auto simp: send_file_def Let_def catch_block_def unlink_def emit_def on_end_def
      split: option.splits stream_outcome.splits prod.splits sum.splits if_splits)

lemma filter_catch_block:
  "filter is_converter_call (trace (snd (catch_block err req res w))) =
   filter is_converter_call (trace w)"
  by (auto simp: Let_def catch_block_def unlink_def emit_def
      split: option.splits prod.splits sum.splits if_splits)

lemma filter_handler:
  assumes "req_file req = Some f"
  shows "filter is_converter_call (trace (snd (handler e req w))) =
         filter is_converter_call
           (trace (snd (dispatch e (path f) (output_path e (template (targetFormat req)))
                          (targetFormat req) w)))"
  using assms
  by (simp add: handler_def Let_def output_path_def filter_send_file filter_catch_block
      split: prod.splits sum.splits)

lemma sharp_send_file:
  "filter is_sharp_call (trace (snd (send_file e req i out name w))) =
   filter is_sharp_call (trace w)"
  by (auto simp: send_file_def Let_def catch_block_def unlink_def emit_def on_end_def
      split: option.splits stream_outcome.splits prod.splits sum.splits if_splits)

lemma sharp_catch_block:
  "filter is_sharp_call (trace (snd (catch_block err req res w))) =
   filter is_sharp_call (trace w)"
  by (auto simp: Let_def catch_block_def unlink_def emit_def
      split: option.splits prod.splits sum.splits if_splits)

lemma sharp_handler:
  assumes "req_file req = Some f"
  shows "filter is_sharp_call (trace (snd (handler e req w))) =
         filter is_sharp_call
           (trace (snd (dispatch e (path f) (output_path e (template (targetFormat req)))
                          (targetFormat req) w)))"
  using assms
  by (simp add: handler_def Let_def output_path_def sharp_send_file sharp_catch_block
      split: prod.splits sum.splits)

lemma sharp_dispatch:
  assumes "tf \<notin> Some ` {''jpg'', ''jpeg'', ''png'', ''webp''}"
  shows "filter is_sharp_call (trace (snd (dispatch e i out tf w))) =
         filter is_sharp_call (trace w)"
proof (cases tf)
  case None
  then show ?thesis by (simp add: dispatch_def)
next
  case (Some fmt)
  with assms have "fmt \<notin> {''jpg'', ''jpeg'', ''png'', ''webp''}" by auto
  with Some show ?thesis
    by (simp add: dispatch_def js_includes_def supportedImageFormats_def
          convertAudio_def convertDocument_def Let_def emit_def create_def not_supported_def
        split: outcome.splits)
qed

text \<open>The dispatch by list, and what each converter leaves in the trace.\<close>

lemma audio_set: "set supportedAudioFormats = {''mp3'', ''wav'', ''ogg'', ''m4a''}"
  by (simp add: supportedAudioFormats_def)

lemma dispatch_audio:
  "fmt \<in> set supportedAudioFormats \<Longrightarrow>
   dispatch e i out (Some fmt) w = convertAudio e i out fmt w"
  by (simp add: dispatch_def js_includes_def)

lemma trace_convertAudio:
  "trace (snd (convertAudio e i out fmt w)) =
   trace w @ [Ffmpeg i fmt ''libmp3lame'' ''192k'' out]"
  by (simp add: convertAudio_def Let_def emit_def create_def split: outcome.splits)

lemma trace_toFile:
  "trace (snd (toFile e enc q out w)) = trace w @ [ToFile enc q out]"
  by (simp add: toFile_def Let_def emit_def create_def split: outcome.splits)

lemma dispatch_image:
  assumes "fmt \<in> {''jpg'', ''jpeg'', ''png'', ''webp''}"
  shows "dispatch e i out (Some fmt) w = convertImage e i out fmt w"
  using assms
  by (elim insertE emptyE)
     (simp_all add: dispatch_def js_includes_def supportedAudioFormats_def
        supportedDocFormats_def supportedImageFormats_def)

lemma trace_convertImage:
  assumes "fmt \<in> {''jpg'', ''jpeg'', ''png'', ''webp''}"
  shows "\<exists>enc. \<forall>i out w.
           trace (snd (convertImage e i out fmt w)) = trace w @ [Sharp i, ToFile enc 90 out]"
  using assms
  by (elim insertE emptyE)
     (simp_all add: convertImage_def Let_def trace_toFile emit_def)

text \<open>The decimal rendering is injective and has no dash in it.\<close>

lemma digit_char_inj:
  assumes "d < 10" and "d' < 10" and "digit_char d = digit_char d'"
  shows "d = d'"
proof -
  have small: "k \<in> {0, 1, 2, 3, 4, 5, 6, 7, 8, 9}" if "k < 10" for k :: nat
    using that by auto
  from small [OF assms(1)] small [OF assms(2)] assms(3) show ?thesis
    by (auto simp: digit_char_def)
qed

lemma digit_char_not_dash:
  assumes "d < 10"
  shows "digit_char d \<noteq> CHR ''-''"
proof -
  from assms have "d \<in> {0, 1, 2, 3, 4, 5, 6, 7, 8, 9}" by auto
  then show ?thesis by (auto simp: digit_char_def)
qed

lemma string_of_nat_no_dash: "CHR ''-'' \<notin> set (string_of_nat n)"
proof (induction n rule: string_of_nat.induct)
  case (1 n)
  show ?case
  proof (cases "n < 10")
    case True
    then show ?thesis
      using digit_char_not_dash [of n] by (simp add: string_of_nat.simps [of n])
  next
    case False
    have "n mod 10 < 10" by simp
    then have "digit_char (n mod 10) \<noteq> CHR ''-''" by (rule digit_char_not_dash)
    with False "1.IH" show ?thesis
      by (auto simp add: string_of_nat.simps [of n])
  qed
qed

lemma string_of_nat_nonempty: "string_of_nat n \<noteq> []"
  by (simp add: string_of_nat.simps [of n])

lemma string_of_nat_inj: "string_of_nat m = string_of_nat n \<Longrightarrow> m = n"
proof (induction m arbitrary: n rule: string_of_nat.induct)
  case (1 m)
  show ?case
  proof (cases "m < 10")
    case m: True
    show ?thesis
    proof (cases "n < 10")
      case True
      with m "1.prems" show ?thesis
        by (simp add: string_of_nat.simps [of m] string_of_nat.simps [of n] digit_char_inj)
    next
      case False
      with m "1.prems" show ?thesis
        using string_of_nat_nonempty [of "n div 10"]
        by (simp add: string_of_nat.simps [of m] string_of_nat.simps [of n])
    qed
  next
    case m: False
    show ?thesis
    proof (cases "n < 10")
      case True
      with m "1.prems" show ?thesis
        using string_of_nat_nonempty [of "m div 10"]
        by (simp add: string_of_nat.simps [of m] string_of_nat.simps [of n])
    next
      case False
      with m "1.prems" have eq: "string_of_nat (m div 10) = string_of_nat (n div 10)"
        and dg: "digit_char (m mod 10) = digit_char (n mod 10)"
        by (simp_all add: string_of_nat.simps [of m] string_of_nat.simps [of n])
      from "1.IH" [OF m eq] have "m div 10 = n div 10" .
      moreover from dg have "m mod 10 = n mod 10"
        by (intro digit_char_inj) simp_all
      ultimately show ?thesis
        by (metis div_mult_mod_eq)
    qed
  qed
qed

lemma split_at_dash:
  assumes "CHR ''-'' \<notin> set a" and "CHR ''-'' \<notin> set b"
    and "a @ CHR ''-'' # x = b @ CHR ''-'' # y"
  shows "a = b \<and> x = y"
  using assms
proof (induction a arbitrary: b)
  case Nil
  then show ?case by (cases b) auto
next
  case (Cons c a)
  then show ?case by (cases b) auto
qed

subsection \<open>A request without a file\<close>

text \<open>
  C8. When the multipart request has no file field, the response is the 400 with the
  JSON body \<^verbatim>\<open>{error: "No file uploaded"}\<close>; the middleware has stored nothing and the
  handler touches no file: the files on disk and the trace of effects are what they were
  before the request, so there is nothing to clean up.
\<close>

theorem no_file_uploaded_400:
  assumes "file_part mp = None"
  shows "status (fst (post_convert e mp w)) = 400
       \<and> body (fst (post_convert e mp w)) = Json [(''error'', ''No file uploaded'')]
       \<and> snd (post_convert e mp w) = w"
  using assms by (simp add: post_convert_def upload_single_def handler_def res0_def json_def)

theorem no_file_uploaded_400_witness:
  "file_part \<lparr>file_part = None, targetFormat_field = Some ''pdf''\<rparr> = None
   \<and> status (fst (post_convert env_ended
        \<lparr>file_part = None, targetFormat_field = Some ''pdf''\<rparr> empty_disk)) = 400
   \<and> body (fst (post_convert env_ended
        \<lparr>file_part = None, targetFormat_field = Some ''pdf''\<rparr> empty_disk)) =
       Json [(''error'', ''No file uploaded'')]
   \<and> snd (post_convert env_ended
        \<lparr>file_part = None, targetFormat_field = Some ''pdf''\<rparr> empty_disk) = empty_disk"
  using no_file_uploaded_400
    [of "\<lparr>file_part = None, targetFormat_field = Some ''pdf''\<rparr>" env_ended empty_disk]
  by simp

subsection \<open>Unsupported targets\<close>

text \<open>
  C2. For a request with an uploaded file whose target format is not one of mp3, wav,
  ogg, m4a, pdf, docx, txt, jpg, jpeg, png, webp, the handler calls no converter, creates
  no file, removes the uploaded input file, and responds 500 with a JSON body whose
  \<^verbatim>\<open>error\<close> field is exactly \<^verbatim>\<open>Conversion to <format> is not supported\<close>.
\<close>

theorem unsupported_format_500:
  assumes "req_file req = Some f" and "targetFormat req \<notin> Some ` supported"
  shows "status (fst (handler e req w)) = 500
       \<and> body (fst (handler e req w)) =
           Json [(''error'',
                  ''Conversion to '' @ template (targetFormat req) @ '' is not supported''),
                 (''details'',
                  ''Error: Conversion to '' @ template (targetFormat req) @ '' is not supported'')]
       \<and> filter is_converter_call (trace (snd (handler e req w))) =
           filter is_converter_call (trace w)
       \<and> files (snd (handler e req w)) = files w - {path f}"
  by (simp add: handler_not_supported [OF assms] json_def)

theorem unsupported_format_500_witness:
  "req_file \<lparr>targetFormat = Some ''xyz'',
             req_file = Some \<lparr>path = ''/srv/uploads/1700000000000-doc.docx'',
                              originalname = ''doc.docx''\<rparr>\<rparr> =
     Some \<lparr>path = ''/srv/uploads/1700000000000-doc.docx'', originalname = ''doc.docx''\<rparr>
   \<and> targetFormat \<lparr>targetFormat = Some ''xyz'',
             req_file = Some \<lparr>path = ''/srv/uploads/1700000000000-doc.docx'',
                              originalname = ''doc.docx''\<rparr>\<rparr> \<notin> Some ` supported
   \<and> status (fst (handler env_as_imported
        \<lparr>targetFormat = Some ''xyz'',
         req_file = Some \<lparr>path = ''/srv/uploads/1700000000000-doc.docx'',
                          originalname = ''doc.docx''\<rparr>\<rparr>
        \<lparr>files = {''/srv/uploads/1700000000000-doc.docx''}, trace = []\<rparr>)) = 500
   \<and> body (fst (handler env_as_imported
        \<lparr>targetFormat = Some ''xyz'',
         req_file = Some \<lparr>path = ''/srv/uploads/1700000000000-doc.docx'',
                          originalname = ''doc.docx''\<rparr>\<rparr>
        \<lparr>files = {''/srv/uploads/1700000000000-doc.docx''}, trace = []\<rparr>)) =
       Json [(''error'', ''Conversion to xyz is not supported''),
             (''details'', ''Error: Conversion to xyz is not supported'')]
   \<and> filter is_converter_call (trace (snd (handler env_as_imported
        \<lparr>targetFormat = Some ''xyz'',
         req_file = Some \<lparr>path = ''/srv/uploads/1700000000000-doc.docx'',
                          originalname = ''doc.docx''\<rparr>\<rparr>
        \<lparr>files = {''/srv/uploads/1700000000000-doc.docx''}, trace = []\<rparr>))) = []
   \<and> files (snd (handler env_as_imported
        \<lparr>targetFormat = Some ''xyz'',
         req_file = Some \<lparr>path = ''/srv/uploads/1700000000000-doc.docx'',
                          originalname = ''doc.docx''\<rparr>\<rparr>
        \<lparr>files = {''/srv/uploads/1700000000000-doc.docx''}, trace = []\<rparr>)) = {}"
proof -
  let ?f = "\<lparr>path = ''/srv/uploads/1700000000000-doc.docx'', originalname = ''doc.docx''\<rparr>"
  let ?req = "\<lparr>targetFormat = Some ''xyz'', req_file = Some ?f\<rparr>"
  have h1: "req_file ?req = Some ?f" by simp
  have h2: "targetFormat ?req \<notin> Some ` supported" by (simp add: supported_def image_iff)
  show ?thesis
    using h1 h2
      unsupported_format_500 [OF h1 h2, of env_as_imported
        "\<lparr>files = {''/srv/uploads/1700000000000-doc.docx''}, trace = []\<rparr>"]
    by (simp add: template_def)
qed

text \<open>
  C9. When a file is uploaded but the form has no \<^verbatim>\<open>targetFormat\<close> field, the
  response is not the 400: it is the 500 with the message
  \<^verbatim>\<open>Conversion to undefined is not supported\<close>, and the uploaded input file is
  removed.
\<close>

theorem missing_targetFormat_500:
  assumes "file_part mp = Some name" and "targetFormat_field mp = None"
  shows "status (fst (post_convert e mp w)) = 500
       \<and> body (fst (post_convert e mp w)) =
           Json [(''error'', ''Conversion to undefined is not supported''),
                 (''details'', ''Error: Conversion to undefined is not supported'')]
       \<and> files (snd (post_convert e mp w)) =
           files w - {uploads_path (dirname e) (storage_filename (stored_at e) name)}"
proof -
  let ?p = "uploads_path (dirname e) (storage_filename (stored_at e) name)"
  let ?req = "\<lparr>targetFormat = None, req_file = Some \<lparr>path = ?p, originalname = name\<rparr>\<rparr>"
  have "targetFormat ?req \<notin> Some ` supported" by simp
  then show ?thesis
    using assms
    by (simp add: post_convert_def upload_single_file handler_not_supported [of ?req]
          template_def json_def)
qed

theorem missing_targetFormat_500_witness:
  "file_part \<lparr>file_part = Some ''doc.docx'', targetFormat_field = None\<rparr> = Some ''doc.docx''
   \<and> targetFormat_field \<lparr>file_part = Some ''doc.docx'', targetFormat_field = None\<rparr> = None
   \<and> status (fst (post_convert env_as_imported
        \<lparr>file_part = Some ''doc.docx'', targetFormat_field = None\<rparr> empty_disk)) = 500
   \<and> body (fst (post_convert env_as_imported
        \<lparr>file_part = Some ''doc.docx'', targetFormat_field = None\<rparr> empty_disk)) =
       Json [(''error'', ''Conversion to undefined is not supported''),
             (''details'', ''Error: Conversion to undefined is not supported'')]
   \<and> files (snd (post_convert env_as_imported
        \<lparr>file_part = Some ''doc.docx'', targetFormat_field = None\<rparr> empty_disk)) = {}"
  using missing_targetFormat_500
    [of "\<lparr>file_part = Some ''doc.docx'', targetFormat_field = None\<rparr>" "''doc.docx''"
        env_as_imported empty_disk]
  by simp

subsection \<open>The response after a conversion\<close>

text \<open>
  C3 fails on the code. \<^verbatim>\<open>sample.mp3\<close> is uploaded with the target \<^verbatim>\<open>wav\<close>,
  which the table maps to \<^verbatim>\<open>audio/wav\<close>, and the converter succeeds. Lines 117 and
  118 set the two headers, line 121 throws, and the response that is sent is the 500 of
  the \<^verbatim>\<open>catch\<close> block: a JSON error whose \<^verbatim>\<open>Content-Type\<close> is
  \<^verbatim>\<open>audio/wav; charset=utf-8\<close>, still marked as the attachment
  \<^verbatim>\<open>1700000000005-converted.wav\<close>. The converted file is never sent.
\<close>

theorem converted_file_not_sent:
  "contentTypes ''wav'' = Some ''audio/wav''
   \<and> fst (dispatch env_as_imported ''/srv/uploads/1700000000000-sample.mp3''
        (output_path env_as_imported ''wav'') (Some ''wav'')
        \<lparr>files = {''/srv/uploads/1700000000000-sample.mp3''}, trace = []\<rparr>) = Inr ()
   \<and> status (fst (handler env_as_imported
        \<lparr>targetFormat = Some ''wav'',
         req_file = Some \<lparr>path = ''/srv/uploads/1700000000000-sample.mp3'',
                          originalname = ''sample.mp3''\<rparr>\<rparr>
        \<lparr>files = {''/srv/uploads/1700000000000-sample.mp3''}, trace = []\<rparr>)) = 500
   \<and> body (fst (handler env_as_imported
        \<lparr>targetFormat = Some ''wav'',
         req_file = Some \<lparr>path = ''/srv/uploads/1700000000000-sample.mp3'',
                          originalname = ''sample.mp3''\<rparr>\<rparr>
        \<lparr>files = {''/srv/uploads/1700000000000-sample.mp3''}, trace = []\<rparr>)) =
       Json [(''error'', ''fs.createReadStream is not a function''),
             (''details'', ''TypeError: fs.createReadStream is not a function'')]
   \<and> headers (fst (handler env_as_imported
        \<lparr>targetFormat = Some ''wav'',
         req_file = Some \<lparr>path = ''/srv/uploads/1700000000000-sample.mp3'',
                          originalname = ''sample.mp3''\<rparr>\<rparr>
        \<lparr>files = {''/srv/uploads/1700000000000-sample.mp3''}, trace = []\<rparr>)) ''Content-Type'' =
       Some ''audio/wav; charset=utf-8''
   \<and> headers (fst (handler env_as_imported
        \<lparr>targetFormat = Some ''wav'',
         req_file = Some \<lparr>path = ''/srv/uploads/1700000000000-sample.mp3'',
                          originalname = ''sample.mp3''\<rparr>\<rparr>
        \<lparr>files = {''/srv/uploads/1700000000000-sample.mp3''}, trace = []\<rparr>))
        ''Content-Disposition'' =
       Some ''attachment; filename=1700000000005-converted.wav''"
proof -
  have n: "string_of_nat 1700000000005 = ''1700000000005''"
    by (simp add: string_of_nat.simps digit_char_def)
  have d: "dispatch e i out (Some ''wav'') w = convertAudio e i out ''wav'' w" for e i out w
    by (rule dispatch_audio) (simp add: audio_set)
  have c: "contentTypes ''wav'' = Some ''audio/wav''"
    by (simp add: contentTypes_def)
  show ?thesis
    by (simp add: handler_def Let_def d c convertAudio_def send_file_def catch_block_def
          unlink_def emit_def create_def not_a_function_def error_toString_def template_def
          setHeader_def res0_def json_def output_path_def uploads_path_def n)
qed

subsection \<open>The converters' fixed settings\<close>

text \<open>
  C5. For every audio target format (mp3, wav, ogg, m4a) the one converter call of the
  request is the ffmpeg chain with the codec \<^verbatim>\<open>libmp3lame\<close> and the bitrate
  \<^verbatim>\<open>192k\<close>, whatever the target container; \<^verbatim>\<open>convertAudio\<close> itself passes these
  two settings for any format.
\<close>

theorem audio_codec_and_bitrate:
  assumes "req_file req = Some f" and "targetFormat req = Some fmt"
    and "fmt \<in> {''mp3'', ''wav'', ''ogg'', ''m4a''}"
  shows "filter is_converter_call (trace (snd (handler e req w))) =
           filter is_converter_call (trace w) @
             [Ffmpeg (path f) fmt ''libmp3lame'' ''192k'' (output_path e fmt)]
       \<and> trace (snd (convertAudio e i out fmt w)) =
           trace w @ [Ffmpeg i fmt ''libmp3lame'' ''192k'' out]"
proof -
  from assms(3) have "fmt \<in> set supportedAudioFormats"
    by (simp only: audio_set)
  then have "dispatch e (path f) (output_path e fmt) (Some fmt) w =
             convertAudio e (path f) (output_path e fmt) fmt w"
    by (rule dispatch_audio)
  then show ?thesis
    using assms(1,2) by (simp add: filter_handler template_def trace_convertAudio)
qed

theorem audio_codec_and_bitrate_witness:
  "req_file \<lparr>targetFormat = Some ''ogg'',
             req_file = Some \<lparr>path = ''/srv/uploads/1700000000000-sample.mp3'',
                              originalname = ''sample.mp3''\<rparr>\<rparr> =
     Some \<lparr>path = ''/srv/uploads/1700000000000-sample.mp3'', originalname = ''sample.mp3''\<rparr>
   \<and> ''ogg'' \<in> {''mp3'', ''wav'', ''ogg'', ''m4a''}
   \<and> filter is_converter_call (trace (snd (handler env_as_imported
        \<lparr>targetFormat = Some ''ogg'',
         req_file = Some \<lparr>path = ''/srv/uploads/1700000000000-sample.mp3'',
                          originalname = ''sample.mp3''\<rparr>\<rparr>
        \<lparr>files = {''/srv/uploads/1700000000000-sample.mp3''}, trace = []\<rparr>))) =
       [Ffmpeg ''/srv/uploads/1700000000000-sample.mp3'' ''ogg'' ''libmp3lame'' ''192k''
          ''/srv/uploads/1700000000005-converted.ogg'']"
proof -
  let ?f = "\<lparr>path = ''/srv/uploads/1700000000000-sample.mp3'', originalname = ''sample.mp3''\<rparr>"
  let ?req = "\<lparr>targetFormat = Some ''ogg'', req_file = Some ?f\<rparr>"
  let ?w = "\<lparr>files = {''/srv/uploads/1700000000000-sample.mp3''}, trace = []\<rparr>"
  have h1: "req_file ?req = Some ?f" by simp
  have h2: "targetFormat ?req = Some ''ogg''" by simp
  have h3: "''ogg'' \<in> {''mp3'', ''wav'', ''ogg'', ''m4a''}" by simp
  have n: "string_of_nat 1700000000005 = ''1700000000005''"
    by (simp add: string_of_nat.simps digit_char_def)
  from audio_codec_and_bitrate [OF h1 h2 h3, of env_as_imported ?w]
  have "filter is_converter_call (trace (snd (handler env_as_imported ?req ?w))) =
       [Ffmpeg ''/srv/uploads/1700000000000-sample.mp3'' ''ogg'' ''libmp3lame'' ''192k''
          ''/srv/uploads/1700000000005-converted.ogg'']"
    by (simp add: output_path_def uploads_path_def n)
  with h1 h3 show ?thesis by simp
qed

text \<open>
  C6. For every image target format (jpg, jpeg, png, webp) the converter calls of the
  request are \<^verbatim>\<open>sharp(input)\<close> and one encoder call with the quality 90; the targets
  jpg and jpeg make \<^verbatim>\<open>convertImage\<close> do the same thing (the JPEG encoder), and the
  table gives both the MIME type \<^verbatim>\<open>image/jpeg\<close>.
\<close>

theorem image_quality_90:
  assumes "req_file req = Some f" and "targetFormat req = Some fmt"
    and "fmt \<in> {''jpg'', ''jpeg'', ''png'', ''webp''}"
  shows "(\<exists>enc. filter is_converter_call (trace (snd (handler e req w))) =
            filter is_converter_call (trace w) @
              [Sharp (path f), ToFile enc 90 (output_path e fmt)]
          \<and> trace (snd (convertImage e i out fmt w)) = trace w @ [Sharp i, ToFile enc 90 out])
       \<and> convertImage e i out ''jpg'' w = convertImage e i out ''jpeg'' w
       \<and> trace (snd (convertImage e i out ''jpeg'' w)) = trace w @ [Sharp i, ToFile Jpeg 90 out]
       \<and> contentTypes ''jpg'' = Some ''image/jpeg''
       \<and> contentTypes ''jpeg'' = Some ''image/jpeg''"
proof -
  from trace_convertImage [OF assms(3), of e]
  obtain enc where enc:
    "\<And>i out w. trace (snd (convertImage e i out fmt w)) = trace w @ [Sharp i, ToFile enc 90 out]"
    by blast
  have "filter is_converter_call (trace (snd (handler e req w))) =
          filter is_converter_call (trace w) @
            [Sharp (path f), ToFile enc 90 (output_path e fmt)]"
    using assms(1,2) by (simp add: filter_handler template_def dispatch_image [OF assms(3)] enc)
  with enc have "\<exists>enc. filter is_converter_call (trace (snd (handler e req w))) =
            filter is_converter_call (trace w) @
              [Sharp (path f), ToFile enc 90 (output_path e fmt)]
          \<and> trace (snd (convertImage e i out fmt w)) = trace w @ [Sharp i, ToFile enc 90 out]"
    by blast
  moreover have "convertImage e i out ''jpg'' w = convertImage e i out ''jpeg'' w"
    by (simp add: convertImage_def)
  moreover have "trace (snd (convertImage e i out ''jpeg'' w)) = trace w @ [Sharp i, ToFile Jpeg 90 out]"
    by (simp add: convertImage_def Let_def trace_toFile emit_def)
  moreover have "contentTypes ''jpg'' = Some ''image/jpeg''"
    and "contentTypes ''jpeg'' = Some ''image/jpeg''"
    by (simp_all add: contentTypes_def)
  ultimately show ?thesis by blast
qed

theorem image_quality_90_witness:
  "req_file \<lparr>targetFormat = Some ''webp'',
             req_file = Some \<lparr>path = ''/srv/uploads/1700000000000-a.png'',
                              originalname = ''a.png''\<rparr>\<rparr> =
     Some \<lparr>path = ''/srv/uploads/1700000000000-a.png'', originalname = ''a.png''\<rparr>
   \<and> ''webp'' \<in> {''jpg'', ''jpeg'', ''png'', ''webp''}
   \<and> filter is_converter_call (trace (snd (handler env_as_imported
        \<lparr>targetFormat = Some ''webp'',
         req_file = Some \<lparr>path = ''/srv/uploads/1700000000000-a.png'',
                          originalname = ''a.png''\<rparr>\<rparr>
        \<lparr>files = {''/srv/uploads/1700000000000-a.png''}, trace = []\<rparr>))) =
       [Sharp ''/srv/uploads/1700000000000-a.png'',
        ToFile Webp 90 ''/srv/uploads/1700000000005-converted.webp'']"
proof -
  let ?f = "\<lparr>path = ''/srv/uploads/1700000000000-a.png'', originalname = ''a.png''\<rparr>"
  let ?req = "\<lparr>targetFormat = Some ''webp'', req_file = Some ?f\<rparr>"
  let ?w = "\<lparr>files = {''/srv/uploads/1700000000000-a.png''}, trace = []\<rparr>"
  have h1: "req_file ?req = Some ?f" by simp
  have h2: "targetFormat ?req = Some ''webp''" by simp
  have h3: "''webp'' \<in> {''jpg'', ''jpeg'', ''png'', ''webp''}" by simp
  have n: "string_of_nat 1700000000005 = ''1700000000005''"
    by (simp add: string_of_nat.simps digit_char_def)
  have t: "trace (snd (convertImage env_as_imported ''i'' ''o'' ''webp'' ?w)) =
           [Sharp ''i'', ToFile Webp 90 ''o'']"
    by (simp add: convertImage_def Let_def trace_toFile emit_def)
  from image_quality_90 [OF h1 h2 h3, of env_as_imported ?w "''i''" "''o''"]
  obtain enc where
    a: "filter is_converter_call (trace (snd (handler env_as_imported ?req ?w))) =
          filter is_converter_call (trace ?w) @
            [Sharp (path ?f), ToFile enc 90 (output_path env_as_imported ''webp'')]"
    and b: "trace (snd (convertImage env_as_imported ''i'' ''o'' ''webp'' ?w)) =
          trace ?w @ [Sharp ''i'', ToFile enc 90 ''o'']"
    by blast
  from b t have "enc = Webp" by simp
  with a have "filter is_converter_call (trace (snd (handler env_as_imported ?req ?w))) =
       [Sharp ''/srv/uploads/1700000000000-a.png'',
        ToFile Webp 90 ''/srv/uploads/1700000000005-converted.webp'']"
    by (simp add: output_path_def uploads_path_def n)
  with h1 h3 show ?thesis by simp
qed

subsection \<open>\<^verbatim>\<open>convertImage\<close> outside its four formats\<close>

text \<open>
  C10. Called with a format other than jpg, jpeg, png and webp, \<^verbatim>\<open>convertImage\<close>
  returns without an error and without writing a file: it only constructs the
  \<^verbatim>\<open>sharp\<close> object. The handler never makes that call: for such a target, and for a
  missing one, a request leaves no call of \<^verbatim>\<open>sharp\<close> in the trace.
\<close>

theorem convertImage_other_format:
  assumes "fmt \<notin> {''jpg'', ''jpeg'', ''png'', ''webp''}"
  shows "convertImage e i out fmt w = (Inr (), \<lparr>files = files w, trace = trace w @ [Sharp i]\<rparr>)
       \<and> filter is_sharp_call
            (trace (snd (handler e \<lparr>targetFormat = Some fmt, req_file = rf\<rparr> w))) =
           filter is_sharp_call (trace w)
       \<and> filter is_sharp_call
            (trace (snd (handler e \<lparr>targetFormat = None, req_file = rf\<rparr> w))) =
           filter is_sharp_call (trace w)"
proof -
  have "convertImage e i out fmt w = (Inr (), \<lparr>files = files w, trace = trace w @ [Sharp i]\<rparr>)"
    using assms by (simp add: convertImage_def Let_def emit_def)
  moreover have "filter is_sharp_call (trace (snd (handler e \<lparr>targetFormat = tf, req_file = rf\<rparr> w))) =
           filter is_sharp_call (trace w)"
    if "tf \<notin> Some ` {''jpg'', ''jpeg'', ''png'', ''webp''}" for tf
  proof (cases rf)
    case None
    then show ?thesis by (simp add: handler_def)
  next
    case (Some f)
    then show ?thesis
      by (simp add: sharp_handler [of _ f] sharp_dispatch [OF that])
  qed
  moreover have "Some fmt \<notin> Some ` {''jpg'', ''jpeg'', ''png'', ''webp''}"
    using assms by auto
  moreover have "None \<notin> Some ` {''jpg'', ''jpeg'', ''png'', ''webp''}"
    by auto
  ultimately show ?thesis by blast
qed

theorem convertImage_other_format_witness:
  "''gif'' \<notin> {''jpg'', ''jpeg'', ''png'', ''webp''}
   \<and> convertImage env_as_imported ''/srv/uploads/1700000000000-a.png''
        ''/srv/uploads/1700000000005-converted.gif'' ''gif''
        \<lparr>files = {''/srv/uploads/1700000000000-a.png''}, trace = []\<rparr> =
       (Inr (), \<lparr>files = {''/srv/uploads/1700000000000-a.png''},
                 trace = [Sharp ''/srv/uploads/1700000000000-a.png'']\<rparr>)
   \<and> filter is_sharp_call (trace (snd (handler env_as_imported
        \<lparr>targetFormat = Some ''gif'',
         req_file = Some \<lparr>path = ''/srv/uploads/1700000000000-a.png'',
                          originalname = ''a.png''\<rparr>\<rparr>
        \<lparr>files = {''/srv/uploads/1700000000000-a.png''}, trace = []\<rparr>))) = []"
proof -
  have h: "''gif'' \<notin> {''jpg'', ''jpeg'', ''png'', ''webp''}" by simp
  from convertImage_other_format [OF h, of env_as_imported
      "''/srv/uploads/1700000000000-a.png''" "''/srv/uploads/1700000000005-converted.gif''"
      "\<lparr>files = {''/srv/uploads/1700000000000-a.png''}, trace = []\<rparr>"
      "Some \<lparr>path = ''/srv/uploads/1700000000000-a.png'', originalname = ''a.png''\<rparr>"]
  show ?thesis using h by simp
qed

subsection \<open>The stored name of an upload\<close>

text \<open>
  C4, as stated, fails. Two different requests that upload a file of the same original
  name and whose \<^verbatim>\<open>filename\<close> callbacks read the same millisecond from
  \<^verbatim>\<open>Date.now()\<close> are stored under one and the same path: after both uploads the
  directory holds a single file, the second having overwritten the first.
\<close>

theorem same_millisecond_collision:
  "\<lparr>file_part = Some ''a.png'', targetFormat_field = Some ''webp''\<rparr> \<noteq>
     \<lparr>file_part = Some ''a.png'', targetFormat_field = Some ''jpg''\<rparr>
   \<and> req_file (fst (upload_single env_as_imported
        \<lparr>file_part = Some ''a.png'', targetFormat_field = Some ''webp''\<rparr> empty_disk)) =
       Some \<lparr>path = ''/srv/uploads/1700000000000-a.png'', originalname = ''a.png''\<rparr>
   \<and> req_file (fst (upload_single env_as_imported
        \<lparr>file_part = Some ''a.png'', targetFormat_field = Some ''jpg''\<rparr>
        (snd (upload_single env_as_imported
           \<lparr>file_part = Some ''a.png'', targetFormat_field = Some ''webp''\<rparr> empty_disk)))) =
       Some \<lparr>path = ''/srv/uploads/1700000000000-a.png'', originalname = ''a.png''\<rparr>
   \<and> files (snd (upload_single env_as_imported
        \<lparr>file_part = Some ''a.png'', targetFormat_field = Some ''jpg''\<rparr>
        (snd (upload_single env_as_imported
           \<lparr>file_part = Some ''a.png'', targetFormat_field = Some ''webp''\<rparr> empty_disk)))) =
       {''/srv/uploads/1700000000000-a.png''}"
proof -
  have n: "string_of_nat 1700000000000 = ''1700000000000''"
    by (simp add: string_of_nat.simps digit_char_def)
  show ?thesis
    by (simp add: upload_single_def Let_def create_def emit_def uploads_path_def
          storage_filename_def n)
qed

text \<open>
  C4, amended. The stored name is the decimal millisecond reading of \<^verbatim>\<open>Date.now()\<close>,
  a dash and the original name, and it determines both: two uploads get the same stored
  name exactly when they read the same millisecond and have the same original name.
  Uploads of one original name are therefore stored apart whenever their millisecond
  readings differ, and only then.
\<close>

theorem storage_filename_eq_iff:
  "storage_filename t1 n1 = storage_filename t2 n2 \<longleftrightarrow> t1 = t2 \<and> n1 = n2"
  using split_at_dash [OF string_of_nat_no_dash string_of_nat_no_dash, of t1 n1 t2 n2]
  by (auto simp: storage_filename_def dest: string_of_nat_inj)

theorem storage_filename_eq_iff_witness:
  "storage_filename 1700000000000 ''a.png'' \<noteq> storage_filename 1700000000001 ''a.png''
   \<and> storage_filename 1700000000000 ''a.png'' = ''1700000000000-a.png''"
proof -
  have n: "string_of_nat 1700000000000 = ''1700000000000''"
    by (simp add: string_of_nat.simps digit_char_def)
  from storage_filename_eq_iff [of 1700000000000 "''a.png''" 1700000000001 "''a.png''"]
  have "storage_filename 1700000000000 ''a.png'' \<noteq> storage_filename 1700000000001 ''a.png''"
    by simp
  then show ?thesis by (simp add: storage_filename_def n)
qed

subsection \<open>Temporary files after a request\<close>

text \<open>
  C1 fails on the code. A PNG is uploaded with the target \<^verbatim>\<open>webp\<close> into an empty
  uploads directory and the converter succeeds. With \<^verbatim>\<open>fs\<close> as line 6 imports it,
  line 121 throws, the \<^verbatim>\<open>catch\<close> block unlinks the input only and answers 500: the
  output file stays on disk. Were the stream created, a client that disconnects
  mid-stream would leave both files, since only \<^verbatim>\<open>'end'\<close> triggers the cleanup.
\<close>

theorem output_file_left_behind:
  "status (fst (post_convert env_as_imported
      \<lparr>file_part = Some ''a.png'', targetFormat_field = Some ''webp''\<rparr> empty_disk)) = 500
   \<and> body (fst (post_convert env_as_imported
      \<lparr>file_part = Some ''a.png'', targetFormat_field = Some ''webp''\<rparr> empty_disk)) =
       Json [(''error'', ''fs.createReadStream is not a function''),
             (''details'', ''TypeError: fs.createReadStream is not a function'')]
   \<and> files (snd (post_convert env_as_imported
      \<lparr>file_part = Some ''a.png'', targetFormat_field = Some ''webp''\<rparr> empty_disk)) =
       {''/srv/uploads/1700000000005-converted.webp''}
   \<and> files (snd (post_convert env_aborted
      \<lparr>file_part = Some ''a.png'', targetFormat_field = Some ''webp''\<rparr> empty_disk)) =
       {''/srv/uploads/1700000000000-a.png'', ''/srv/uploads/1700000000005-converted.webp''}"
proof -
  have n: "string_of_nat 1700000000000 = ''1700000000000''"
    and n': "string_of_nat 1700000000005 = ''1700000000005''"
    by (simp_all add: string_of_nat.simps digit_char_def)
  have d: "dispatch e i out (Some ''webp'') w = convertImage e i out ''webp'' w" for e i out w
    by (rule dispatch_image) simp
  have c: "contentTypes ''webp'' = Some ''image/webp''"
    by (simp add: contentTypes_def)
  show ?thesis
    by (auto simp: post_convert_def upload_single_file handler_def Let_def d c
          convertImage_def toFile_def send_file_def catch_block_def unlink_def emit_def
          create_def not_a_function_def error_toString_def template_def setHeader_def res0_def
          json_def uploads_path_def storage_filename_def n n')
qed

text \<open>The same request when the stream runs to its end: both files are removed.\<close>

lemma ended_stream_cleans_up:
  "snd (post_convert env_ended
      \<lparr>file_part = Some ''a.png'', targetFormat_field = Some ''webp''\<rparr> empty_disk) =
     \<lparr>files = {},
      trace = [WriteFile ''/srv/uploads/1700000000000-a.png'',
               Sharp ''/srv/uploads/1700000000000-a.png'',
               ToFile Webp 90 ''/srv/uploads/1700000000005-converted.webp'',
               CreateReadStream ''/srv/uploads/1700000000005-converted.webp'',
               Unlink ''/srv/uploads/1700000000000-a.png'',
               Unlink ''/srv/uploads/1700000000005-converted.webp'']\<rparr>"
proof -
  have n: "string_of_nat 1700000000000 = ''1700000000000''"
    and n': "string_of_nat 1700000000005 = ''1700000000005''"
    by (simp_all add: string_of_nat.simps digit_char_def)
  have d: "dispatch e i out (Some ''webp'') w = convertImage e i out ''webp'' w" for e i out w
    by (rule dispatch_image) simp
  have c: "contentTypes ''webp'' = Some ''image/webp''"
    by (simp add: contentTypes_def)
  show ?thesis
    by (auto simp: post_convert_def upload_single_file handler_def Let_def d c
          convertImage_def toFile_def send_file_def on_end_def unlink_def emit_def
          create_def template_def setHeader_def res0_def
          uploads_path_def storage_filename_def n n')
qed

subsection \<open>The cleanup\<close>






text \<open>
  The callback of \<^verbatim>\<open>'end'\<close> (lines 125 to 132) is not reached with \<^verbatim>\<open>fs\<close> as
  imported. As written, its two unlinks share one \<^verbatim>\<open>try\<close>: when the input file is
  already missing, the unlink of the output file is not attempted.
\<close>

lemma on_end_first_failure:
  "on_end ''/srv/uploads/1700000000000-a.png'' ''/srv/uploads/1700000000005-converted.webp''
     \<lparr>files = {''/srv/uploads/1700000000005-converted.webp''}, trace = []\<rparr> =
   \<lparr>files = {''/srv/uploads/1700000000005-converted.webp''},
    trace = [Unlink ''/srv/uploads/1700000000000-a.png'',
             ConsoleError ''Error cleaning up files:'']\<rparr>"
  by (simp add: on_end_def unlink_def emit_def Let_def)

end
